theory Spec2Isabelle
  imports Main "HOL-Library.Word"
begin

section \<open>JavaScript strings and values\<close>

text \<open>
  A JavaScript string is a sequence of UTF-16 code units; \<open>.length\<close> counts code units and
  \<open>substring(0, n)\<close> keeps the first \<open>n\<close> of them.
\<close>

type_synonym code_unit = "16 word"
type_synonym jsstring = "code_unit list"

definition lit :: "string \<Rightarrow> jsstring" where
  \<comment> \<open>an ASCII string literal of the source\<close>
  "lit s = map (\<lambda>c. of_nat (of_char c)) s"

definition is_white_space :: "code_unit \<Rightarrow> bool" where
  \<comment> \<open>ECMAScript WhiteSpace and LineTerminator, what \<open>String.prototype.trim\<close> removes\<close>
  "is_white_space c =
     (c = 0x9 \<or> c = 0xA \<or> c = 0xB \<or> c = 0xC \<or> c = 0xD \<or> c = 0x20 \<or> c = 0xA0 \<or>
      c = 0x1680 \<or> (0x2000 \<le> c \<and> c \<le> 0x200A) \<or> c = 0x2028 \<or> c = 0x2029 \<or>
      c = 0x202F \<or> c = 0x205F \<or> c = 0x3000 \<or> c = 0xFEFF)"

definition trim :: "jsstring \<Rightarrow> jsstring" where
  "trim s = rev (dropWhile is_white_space (rev (dropWhile is_white_space s)))"

definition substring0 :: "nat \<Rightarrow> jsstring \<Rightarrow> jsstring" where
  \<comment> \<open>\<open>s.substring(0, n)\<close>\<close>
  "substring0 n s = take n s"

fun split_on :: "('a \<Rightarrow> bool) \<Rightarrow> 'a list \<Rightarrow> 'a list list" where
  \<comment> \<open>\<open>s.split(sep)\<close> for a one-unit separator: one piece more than there are separators\<close>
  "split_on p [] = [[]]"
| "split_on p (x # xs) =
     (if p x then [] # split_on p xs
      else (case split_on p xs of
              [] \<Rightarrow> [[x]]
            | y # ys \<Rightarrow> (x # y) # ys))"

text \<open>
  The values the script handles are strings and \<open>null\<close>/\<open>undefined\<close>: a \<open>jsstring option\<close>,
  \<open>None\<close> for \<open>null\<close> and \<open>undefined\<close>. Both \<open>None\<close> and the empty string are falsy.
\<close>

definition truthy :: "jsstring option \<Rightarrow> bool" where
  "truthy v = (case v of None \<Rightarrow> False | Some s \<Rightarrow> s \<noteq> [])"

definition js_or :: "jsstring option \<Rightarrow> jsstring option \<Rightarrow> jsstring option" where
  \<comment> \<open>\<open>a || b\<close>\<close>
  "js_or a b = (if truthy a then a else b)"

definition or_str :: "jsstring option \<Rightarrow> jsstring \<Rightarrow> jsstring" where
  \<comment> \<open>\<open>a || b\<close> where \<open>b\<close> is a string, so that the result is one\<close>
  "or_str a b = (case a of None \<Rightarrow> b | Some s \<Rightarrow> if s \<noteq> [] then s else b)"

definition num_or :: "nat \<Rightarrow> nat \<Rightarrow> nat" where
  \<comment> \<open>\<open>a || b\<close> on numbers: \<open>0\<close> is falsy\<close>
  "num_or a b = (if a \<noteq> 0 then a else b)"

section \<open>The document\<close>

text \<open>
  An element carries its local name (lower case for an element of an HTML document's
  markup), whether it is in the HTML namespace, its attributes and the two properties the
  script reads that depend on the browser and not on the tree alone: \<open>innerText\<close> (the
  rendered text; \<open>undefined\<close> on an element that is not an HTMLElement) and \<open>href\<close> (the
  resolved URL of a link; \<open>undefined\<close> where the element has no such property).

  A document is its child nodes, its title, and the two facts about it that selector
  matching depends on: whether it is an HTML document (as against an XML one) and whether
  it is in quirks mode.
\<close>

record props =
  localName :: jsstring
  html_namespace :: bool
  attributes :: "(jsstring \<times> jsstring) list"
  innerText :: "jsstring option"
  href :: "jsstring option"

datatype node = Text jsstring | Element props "node list"

record document =
  childNodes :: "node list"
  doc_title :: jsstring
  html_document :: bool
  quirks_mode :: bool

fun textContent :: "node \<Rightarrow> jsstring" where
  "textContent (Text s) = s"
| "textContent (Element p cs) = concat (map textContent cs)"

fun getInnerText :: "node \<Rightarrow> jsstring option" where
  "getInnerText (Text s) = None"
| "getInnerText (Element p cs) = innerText p"

fun getHref :: "node \<Rightarrow> jsstring option" where
  "getHref (Text s) = None"
| "getHref (Element p cs) = href p"

fun getAttribute :: "node \<Rightarrow> jsstring \<Rightarrow> jsstring option" where
  "getAttribute (Text s) a = None"
| "getAttribute (Element p cs) a = map_of (attributes p) a"

fun elements_of :: "node \<Rightarrow> node list" where
  \<comment> \<open>the element and its element descendants, in document order\<close>
  "elements_of (Text s) = []"
| "elements_of (Element p cs) = Element p cs # concat (map elements_of cs)"

subsection \<open>Selectors\<close>

datatype simple_selector =
    Type jsstring              \<comment> \<open>\<open>article\<close>\<close>
  | Attr jsstring jsstring     \<comment> \<open>\<open>[role="main"]\<close>\<close>
  | Class jsstring             \<comment> \<open>\<open>.content\<close>\<close>

type_synonym compound_selector = "simple_selector list"
type_synonym selector = "compound_selector list"

definition is_ascii_space :: "code_unit \<Rightarrow> bool" where
  "is_ascii_space c = (c = 0x9 \<or> c = 0xA \<or> c = 0xC \<or> c = 0xD \<or> c = 0x20)"

definition class_tokens :: "jsstring \<Rightarrow> jsstring list" where
  "class_tokens v = filter (\<lambda>t. t \<noteq> []) (split_on is_ascii_space v)"

definition ascii_lower :: "code_unit \<Rightarrow> code_unit" where
  "ascii_lower c = (if 0x41 \<le> c \<and> c \<le> 0x5A then c + 0x20 else c)"

definition same_ignoring_case :: "jsstring \<Rightarrow> jsstring \<Rightarrow> bool" where
  \<comment> \<open>ASCII case-insensitive equality\<close>
  "same_ignoring_case a b = (map ascii_lower a = map ascii_lower b)"

text \<open>
  The selectors of the script are written in lower case, so a type selector and an
  attribute name are compared as they stand. Attribute values are compared exactly,
  except for the attributes whose values HTML compares without regard to ASCII case on an
  HTML element of an HTML document; of the attributes the script tests (\<open>property\<close>,
  \<open>name\<close>, \<open>role\<close>, \<open>rel\<close>) that is \<open>rel\<close>. Class names are compared exactly, except in
  quirks mode, where they are compared without regard to ASCII case.
\<close>

fun matches_simple :: "document \<Rightarrow> node \<Rightarrow> simple_selector \<Rightarrow> bool" where
  "matches_simple d (Text s) sel = False"
| "matches_simple d (Element p cs) (Type t) = (localName p = t)"
| "matches_simple d (Element p cs) (Attr a v) =
     (case map_of (attributes p) a of
        None \<Rightarrow> False
      | Some x \<Rightarrow>
          if a = lit ''rel'' \<and> html_namespace p \<and> html_document d
          then same_ignoring_case x v
          else x = v)"
| "matches_simple d (Element p cs) (Class c) =
     (case map_of (attributes p) (lit ''class'') of
        None \<Rightarrow> False
      | Some v \<Rightarrow>
          if quirks_mode d then list_ex (same_ignoring_case c) (class_tokens v)
          else c \<in> set (class_tokens v))"

definition matches :: "document \<Rightarrow> node \<Rightarrow> selector \<Rightarrow> bool" where
  \<comment> \<open>a selector list matches when one of its compound selectors does\<close>
  "matches d n sel = list_ex (\<lambda>c. list_all (matches_simple d n) c) sel"

definition querySelector :: "document \<Rightarrow> selector \<Rightarrow> node option" where
  \<comment> \<open>the first element in document order that matches, \<open>null\<close> when none does\<close>
  "querySelector d sel =
     find (\<lambda>n. matches d n sel) (concat (map elements_of (childNodes d)))"

fun is_element :: "node \<Rightarrow> bool" where
  "is_element (Text s) = False"
| "is_element (Element p cs) = True"

fun is_html_element :: "jsstring list \<Rightarrow> node \<Rightarrow> bool" where
  \<comment> \<open>an element of the HTML namespace with one of the given local names\<close>
  "is_html_element ns (Text s) = False"
| "is_html_element ns (Element p cs) = (html_namespace p \<and> localName p \<in> set ns)"

definition body :: "document \<Rightarrow> node option" where
  \<comment> \<open>\<open>document.body\<close>: if the document element is an HTML \<open>html\<close> element, its first
      child that is an HTML \<open>body\<close> or \<open>frameset\<close> element; else \<open>null\<close>\<close>
  "body d =
     (case find is_element (childNodes d) of
        Some (Element p cs) \<Rightarrow>
          if is_html_element [lit ''html''] (Element p cs)
          then find (is_html_element [lit ''body'', lit ''frameset'']) cs
          else None
      | _ \<Rightarrow> None)"

fun remove_all :: "document \<Rightarrow> selector \<Rightarrow> node \<Rightarrow> node" where
  \<comment> \<open>\<open>querySelectorAll(sel).forEach(el => el.remove())\<close> below a node that stays\<close>
  "remove_all d sel (Text s) = Text s"
| "remove_all d sel (Element p cs) =
     Element p (map (remove_all d sel) (filter (\<lambda>c. \<not> matches d c sel) cs))"

definition remove_from_document :: "selector \<Rightarrow> document \<Rightarrow> document" where
  "remove_from_document sel d =
     d\<lparr>childNodes :=
         map (remove_all d sel) (filter (\<lambda>c. \<not> matches d c sel) (childNodes d))\<rparr>"

section \<open>The page, the libraries and the effects of the script\<close>

datatype error = TypeError jsstring | Error jsstring

fun message :: "error \<Rightarrow> jsstring" where
  \<comment> \<open>\<open>error.message\<close>\<close>
  "message (TypeError m) = m"
| "message (Error m) = m"

text \<open>The object the script passes to \<open>chrome.runtime.sendMessage\<close>.\<close>

record notification =
  n_action :: jsstring
  n_title :: jsstring
  n_message :: jsstring
  n_type :: jsstring

text \<open>
  What the content script reads and writes: the live document, the current selection
  (\<open>window.getSelection().toString()\<close>), \<open>window.location\<close>, the messages handed to
  \<open>chrome.runtime.sendMessage\<close> (oldest first) and the lines written with
  \<open>console.error\<close>.
\<close>

record world =
  doc :: document
  selection :: jsstring
  location_href :: jsstring
  location_hostname :: jsstring
  location_origin :: jsstring
  sent :: "notification list"
  console :: "(jsstring \<times> error) list"

text \<open>
  Readability and Turndown are libraries outside the repository. They are parameters:
  \<open>parse d\<close> is the outcome of \<open>new Readability(d, options).parse()\<close> with the options the
  script fixes (an exception, \<open>null\<close>, or an article object whose properties may be
  \<open>null\<close>), and \<open>turndown h\<close> is the outcome of \<open>turndownService.turndown(h)\<close> for the
  service the script configures. Constructing that service from the script's fixed options
  is taken not to throw.
\<close>

record parsed =
  p_title :: "jsstring option"
  p_content :: "jsstring option"
  p_textContent :: "jsstring option"
  p_excerpt :: "jsstring option"
  p_byline :: "jsstring option"
  p_siteName :: "jsstring option"

record libraries =
  parse :: "document \<Rightarrow> error + parsed option"
  turndown :: "jsstring \<Rightarrow> error + jsstring"

section \<open>Metadata reader\<close>

definition getMetaContent :: "world \<Rightarrow> jsstring \<Rightarrow> jsstring option" where
  "getMetaContent w property =
     (case querySelector (doc w)
             [[Type (lit ''meta''), Attr (lit ''property'') property],
              [Type (lit ''meta''), Attr (lit ''name'') property]] of
        Some meta \<Rightarrow> getAttribute meta (lit ''content'')
      | None \<Rightarrow> Some [])"

definition getMetaDescription :: "world \<Rightarrow> jsstring" where
  "getMetaDescription w =
     or_str (js_or (js_or (getMetaContent w (lit ''og:description''))
                          (getMetaContent w (lit ''description'')))
                   (getMetaContent w (lit ''twitter:description''))) []"

definition getMetaAuthor :: "world \<Rightarrow> jsstring" where
  "getMetaAuthor w =
     or_str (js_or (js_or (getMetaContent w (lit ''author''))
                          (getMetaContent w (lit ''article:author'')))
                   (getMetaContent w (lit ''og:article:author''))) []"

definition getMetaDate :: "world \<Rightarrow> jsstring" where
  "getMetaDate w =
     or_str (js_or (js_or (getMetaContent w (lit ''article:published_time''))
                          (getMetaContent w (lit ''date'')))
                   (getMetaContent w (lit ''pubdate''))) []"

definition getMetaKeywords :: "world \<Rightarrow> jsstring list" where
  "getMetaKeywords w =
     (case getMetaContent w (lit ''keywords'') of
        None \<Rightarrow> []
      | Some keywords \<Rightarrow>
          if keywords \<noteq> [] then map trim (split_on (\<lambda>c. c = 0x2C) keywords) else [])"

definition getMetaImage :: "world \<Rightarrow> jsstring" where
  "getMetaImage w =
     or_str (js_or (getMetaContent w (lit ''og:image''))
                   (getMetaContent w (lit ''twitter:image''))) []"

definition node_or :: "node option \<Rightarrow> node option \<Rightarrow> node option" where
  \<comment> \<open>\<open>a || b\<close> on elements: an element is truthy, \<open>null\<close> is falsy\<close>
  "node_or a b = (case a of Some n \<Rightarrow> Some n | None \<Rightarrow> b)"

definition getFaviconUrl :: "world \<Rightarrow> jsstring" where
  "getFaviconUrl w =
     (let iconLink =
            node_or (node_or (querySelector (doc w)
                                [[Type (lit ''link''), Attr (lit ''rel'') (lit ''icon'')]])
                             (querySelector (doc w)
                                [[Type (lit ''link''), Attr (lit ''rel'') (lit ''shortcut icon'')]]))
                    (querySelector (doc w)
                       [[Type (lit ''link''), Attr (lit ''rel'') (lit ''apple-touch-icon'')]])
      in case iconLink of
           None \<Rightarrow> location_origin w @ lit ''/favicon.ico''
         | Some l \<Rightarrow>
             if truthy (getHref l) then or_str (getHref l) []
             else location_origin w @ lit ''/favicon.ico'')"

definition getPageTitle :: "world \<Rightarrow> jsstring" where
  "getPageTitle w =
     or_str (js_or (js_or (getMetaContent w (lit ''og:title''))
                          (getMetaContent w (lit ''twitter:title'')))
                   (Some (doc_title (doc w)))) []"

section \<open>Selection reader\<close>

definition getSelectedText :: "world \<Rightarrow> jsstring" where
  "getSelectedText w = trim (selection w)"

section \<open>Structured extractor and markup normalizer\<close>

record article =
  art_title :: "jsstring option"
  art_content :: jsstring
  art_excerpt :: jsstring
  art_byline :: jsstring
  art_length :: nat
  art_siteName :: jsstring

definition log_error :: "jsstring \<Rightarrow> error \<Rightarrow> world \<Rightarrow> world" where
  \<comment> \<open>\<open>console.error(label, error)\<close>\<close>
  "log_error label e w = w\<lparr>console := console w @ [(label, e)]\<rparr>"

definition markdownContent :: "libraries \<Rightarrow> parsed \<Rightarrow> error + jsstring" where
  \<comment> \<open>\<open>article.content ? turndownService.turndown(article.content) : article.textContent || ''\<close>\<close>
  "markdownContent L a =
     (case p_content a of
        None \<Rightarrow> Inr (or_str (p_textContent a) [])
      | Some c \<Rightarrow> if c \<noteq> [] then turndown L c else Inr (or_str (p_textContent a) []))"

definition extractMainContent :: "libraries \<Rightarrow> world \<Rightarrow> article option \<times> world" where
  \<comment> \<open>the \<open>try\<close> block; either library throwing lands in the \<open>catch\<close>, which logs and returns \<open>null\<close>\<close>
  "extractMainContent L w =
     (let documentClone = doc w;
          documentClone =
            remove_from_document
              [[Type (lit ''script'')], [Type (lit ''style'')], [Type (lit ''noscript'')]]
              documentClone
      in case parse L documentClone of
           Inl e \<Rightarrow> (None, log_error (lit ''Readability extraction error:'') e w)
         | Inr None \<Rightarrow> (None, w)
         | Inr (Some a) \<Rightarrow>
             (case markdownContent L a of
                Inl e \<Rightarrow> (None, log_error (lit ''Readability extraction error:'') e w)
              | Inr md \<Rightarrow>
                  (Some \<lparr>art_title = p_title a,
                         art_content = md,
                         art_excerpt = or_str (p_excerpt a) [],
                         art_byline = or_str (p_byline a) [],
                         art_length = num_or (length md) 0,
                         art_siteName = or_str (p_siteName a) []\<rparr>, w)))"

section \<open>Fallback extractor\<close>

definition selectors :: "selector list" where
  "selectors =
     [[[Type (lit ''article'')]],
      [[Type (lit ''main'')]],
      [[Attr (lit ''role'') (lit ''main'')]],
      [[Class (lit ''article-content'')]],
      [[Class (lit ''post-content'')]],
      [[Class (lit ''entry-content'')]],
      [[Class (lit ''content'')]]]"

definition text_of :: "node \<Rightarrow> jsstring" where
  \<comment> \<open>\<open>element.innerText || element.textContent || ''\<close>\<close>
  "text_of element = or_str (js_or (getInnerText element) (Some (textContent element))) []"

fun fallback_loop :: "document \<Rightarrow> selector list \<Rightarrow> jsstring option" where
  \<comment> \<open>the \<open>for\<close> loop: \<open>Some\<close> is its \<open>return\<close>, \<open>None\<close> is falling out of it\<close>
  "fallback_loop d [] = None"
| "fallback_loop d (selector # rest) =
     (case querySelector d selector of
        Some element \<Rightarrow> Some (text_of element)
      | None \<Rightarrow> fallback_loop d rest)"

definition extractFallbackContent :: "world \<Rightarrow> error + jsstring" where
  \<comment> \<open>reading \<open>innerText\<close> of a \<open>null\<close> \<open>document.body\<close> throws a TypeError,
      with the message the engine gives it\<close>
  "extractFallbackContent w =
     (case fallback_loop (doc w) selectors of
        Some t \<Rightarrow> Inr t
      | None \<Rightarrow>
          (case body (doc w) of
             None \<Rightarrow> Inl (TypeError (lit ''Cannot read properties of null (reading 'innerText')''))
           | Some b \<Rightarrow> Inr (text_of b)))"

section \<open>Extraction orchestrator\<close>

record ContentRecord =
  url :: jsstring
  domain :: jsstring
  title :: jsstring
  content :: jsstring
  excerpt :: jsstring
  selectedText :: jsstring
  hasSelection :: bool
  description :: jsstring
  author :: jsstring
  publishedDate :: jsstring
  keywords' :: "jsstring list"
  ogImage :: jsstring
  favicon :: jsstring
  contentLength :: nat
  siteName :: jsstring

definition notice :: notification where
  "notice =
     \<lparr>n_action = lit ''showNotification'',
      n_title = lit ''Content Extraction Notice'',
      n_message =
        lit ''Using basic extraction. Page structure may not be optimized for reading.'',
      n_type = lit ''info''\<rparr>"

definition sendMessage :: "notification \<Rightarrow> world \<Rightarrow> world" where
  \<comment> \<open>\<open>chrome.runtime.sendMessage(m)\<close>; what it returns is dropped by the script\<close>
  "sendMessage m w = w\<lparr>sent := sent w @ [m]\<rparr>"

definition initial_result :: "jsstring \<Rightarrow> bool \<Rightarrow> article option \<Rightarrow> world \<Rightarrow> ContentRecord" where
  \<comment> \<open>the object literal \<open>result\<close>\<close>
  "initial_result selText hasSel art w =
     \<lparr>url = location_href w,
      domain = location_hostname w,
      title = getPageTitle w,
      content = [],
      excerpt = [],
      selectedText = selText,
      hasSelection = hasSel,
      description = getMetaDescription w,
      author =
        or_str (Some (getMetaAuthor w)) (case art of Some a \<Rightarrow> art_byline a | None \<Rightarrow> []),
      publishedDate = getMetaDate w,
      keywords' = getMetaKeywords w,
      ogImage = getMetaImage w,
      favicon = getFaviconUrl w,
      contentLength = 0,
      siteName = (case art of Some a \<Rightarrow> art_siteName a | None \<Rightarrow> location_hostname w)\<rparr>"

definition use_selection :: "jsstring \<Rightarrow> ContentRecord \<Rightarrow> ContentRecord" where
  \<comment> \<open>the branch \<open>if (hasSelection)\<close>\<close>
  "use_selection selText result =
     result\<lparr>content := selText,
            excerpt := substring0 300 selText,
            contentLength := length selText\<rparr>"

definition use_article :: "article \<Rightarrow> ContentRecord \<Rightarrow> ContentRecord" where
  \<comment> \<open>the branch \<open>else if (article && article.content)\<close>\<close>
  "use_article a result =
     (let result = result\<lparr>content := art_content a,
                           excerpt := or_str (Some (art_excerpt a)) (substring0 300 (art_content a)),
                           contentLength := num_or (art_length a) (length (art_content a))\<rparr>
      in case art_title a of
           None \<Rightarrow> result
         | Some t \<Rightarrow> if t \<noteq> [] \<and> length t > 0 then result\<lparr>title := t\<rparr> else result)"

definition fallback_result :: "jsstring \<Rightarrow> ContentRecord \<Rightarrow> ContentRecord" where
  \<comment> \<open>the three assignments that follow the call of \<open>extractFallbackContent\<close>\<close>
  "fallback_result c result =
     result\<lparr>content := c,
            excerpt := substring0 300 c,
            contentLength := length c\<rparr>"

definition use_fallback :: "ContentRecord \<Rightarrow> world \<Rightarrow> (error + ContentRecord) \<times> world" where
  \<comment> \<open>the last branch: the notification is sent before the fallback extractor runs\<close>
  "use_fallback result w =
     (let w = sendMessage notice w
      in case extractFallbackContent w of
           Inl e \<Rightarrow> (Inl e, w)
         | Inr c \<Rightarrow> (Inr (fallback_result c result), w))"

definition use_description :: "ContentRecord \<Rightarrow> ContentRecord" where
  \<comment> \<open>\<open>if (!result.excerpt && result.description) result.excerpt = result.description\<close>\<close>
  "use_description result =
     (if excerpt result = [] \<and> description result \<noteq> []
      then result\<lparr>excerpt := description result\<rparr>
      else result)"

definition determine_content ::
  "jsstring \<Rightarrow> bool \<Rightarrow> article option \<Rightarrow> ContentRecord \<Rightarrow> world \<Rightarrow> (error + ContentRecord) \<times> world"
where
  \<comment> \<open>the three-way \<open>if\<close> of \<open>extractPageData\<close>\<close>
  "determine_content selText hasSel art result w =
     (if hasSel then (Inr (use_selection selText result), w)
      else case art of
             None \<Rightarrow> use_fallback result w
           | Some a \<Rightarrow>
               if art_content a \<noteq> [] then (Inr (use_article a result), w)
               else use_fallback result w)"

definition content_step :: "libraries \<Rightarrow> world \<Rightarrow> (error + ContentRecord) \<times> world" where
  \<comment> \<open>\<open>extractPageData\<close> from its first line to the end of the three-way \<open>if\<close>;
      \<open>Inl\<close> is an exception leaving the function, the world is what the call left behind\<close>
  "content_step L w =
     (let selText = getSelectedText w;
          hasSel = (length selText > 0);
          (art, w) = extractMainContent L w;
          result = initial_result selText hasSel art w
      in determine_content selText hasSel art result w)"

definition extractPageData :: "libraries \<Rightarrow> world \<Rightarrow> (error + ContentRecord) \<times> world" where
  \<comment> \<open>the rest of the function: the description as excerpt, and \<open>return result\<close>\<close>
  "extractPageData L w =
     (case content_step L w of
        (Inl e, w) \<Rightarrow> (Inl e, w)
      | (Inr result, w) \<Rightarrow> (Inr (use_description result), w))"

section \<open>The message listener\<close>

record request =
  action :: jsstring

datatype response =
    Success ContentRecord   \<comment> \<open>\<open>{ success: true, data: pageData }\<close>\<close>
  | Failure jsstring        \<comment> \<open>\<open>{ success: false, error: error.message }\<close>\<close>

definition listener ::
  "libraries \<Rightarrow> request \<Rightarrow> world \<Rightarrow> (response list \<times> bool) \<times> world"
where
  \<comment> \<open>the callback given to \<open>chrome.runtime.onMessage.addListener\<close>: the responses it
      passes to \<open>sendResponse\<close>, the value it returns, and the world it leaves\<close>
  "listener L req w =
     (if action req = lit ''extractPageData''
      then (case extractPageData L w of
              (Inr pageData, w) \<Rightarrow> (([Success pageData], True), w)
            | (Inl e, w) \<Rightarrow>
                (([Failure (message e)], True),
                 log_error (lit ''Content extraction error:'') e w))
      else (([], True), w))"

section \<open>Content sources\<close>

datatype source = SELECTION | STRUCTURED | FALLBACK

definition source_of :: "libraries \<Rightarrow> world \<Rightarrow> source" where
  \<comment> \<open>which branch of the three-way \<open>if\<close> an extraction takes\<close>
  "source_of L w =
     (if getSelectedText w \<noteq> [] then SELECTION
      else case fst (extractMainContent L w) of
             None \<Rightarrow> FALLBACK
           | Some a \<Rightarrow> if art_content a \<noteq> [] then STRUCTURED else FALLBACK)"

definition first_nonempty :: "jsstring option list \<Rightarrow> jsstring" where
  \<comment> \<open>the first non-empty value of an ordered list of candidates, the empty string if none\<close>
  "first_nonempty vs = (case find truthy vs of Some (Some s) \<Rightarrow> s | _ \<Rightarrow> [])"

definition metadata_title :: "world \<Rightarrow> jsstring" where
  \<comment> \<open>\<open>og:title\<close>, then \<open>twitter:title\<close>, then the document title, then the empty string\<close>
  "metadata_title w =
     first_nonempty [getMetaContent w (lit ''og:title''),
                     getMetaContent w (lit ''twitter:title''),
                     Some (doc_title (doc w))]"

definition extractor_title :: "libraries \<Rightarrow> world \<Rightarrow> jsstring" where
  \<comment> \<open>the title of the structured extractor's result, empty when there is none\<close>
  "extractor_title L w =
     (case fst (extractMainContent L w) of
        None \<Rightarrow> []
      | Some a \<Rightarrow> or_str (art_title a) [])"

definition truncated :: "libraries \<Rightarrow> world \<Rightarrow> bool" where
  \<comment> \<open>the branch taken assigns \<open>substring(0, 300)\<close> to the excerpt: always on the selection
      and fallback branches, on the structured one when the extractor has no excerpt\<close>
  "truncated L w =
     (case source_of L w of
        SELECTION \<Rightarrow> True
      | FALLBACK \<Rightarrow> True
      | STRUCTURED \<Rightarrow>
          (case fst (extractMainContent L w) of
             None \<Rightarrow> False
           | Some a \<Rightarrow> art_excerpt a = []))"

definition description_used :: "libraries \<Rightarrow> world \<Rightarrow> bool" where
  \<comment> \<open>the test \<open>!result.excerpt && result.description\<close> succeeds where the script makes it\<close>
  "description_used L w =
     (case fst (content_step L w) of
        Inl e \<Rightarrow> False
      | Inr result \<Rightarrow> excerpt result = [] \<and> description result \<noteq> [])"

fun first_container :: "document \<Rightarrow> selector list \<Rightarrow> node option" where
  \<comment> \<open>the element found by the first selector of the list that matches anything\<close>
  "first_container d [] = None"
| "first_container d (selector # rest) =
     (case querySelector d selector of
        Some element \<Rightarrow> Some element
      | None \<Rightarrow> first_container d rest)"

definition fallback_element :: "document \<Rightarrow> node option" where
  \<comment> \<open>the element whose text the fallback extractor returns: the first semantic
      container, the body when there is none\<close>
  "fallback_element d =
     (case first_container d selectors of
        Some element \<Rightarrow> Some element
      | None \<Rightarrow> body d)"

section \<open>Example pages\<close>

definition elem :: "string \<Rightarrow> (string \<times> string) list \<Rightarrow> string \<Rightarrow> node list \<Rightarrow> node" where
  \<comment> \<open>an HTML element of an example page: name, attributes, rendered text, children\<close>
  "elem name as rendered cs =
     Element \<lparr>localName = lit name,
              html_namespace = True,
              attributes = map (\<lambda>(a, v). (lit a, lit v)) as,
              innerText = Some (lit rendered),
              href = None\<rparr> cs"

definition example_article_element :: node where
  \<comment> \<open>\<open><article></article>\<close>\<close>
  "example_article_element = elem ''article'' [] '''' []"

definition example_body :: node where
  \<comment> \<open>\<open><body><article></article><p>hello</p></body>\<close>, rendered as \<open>hello\<close>\<close>
  "example_body =
     elem ''body'' [] ''hello''
       [example_article_element,
        elem ''p'' [] ''hello'' [Text (lit ''hello'')]]"

definition example_document :: document where
  \<comment> \<open>\<open><html><head><meta property="og:title" content="OG Title"></head>\<close>, then the
      body above, titled \<open>Doc Title\<close>\<close>
  "example_document =
     \<lparr>childNodes =
        [elem ''html'' [] ''hello''
           [elem ''head'' [] ''''
              [elem ''meta'' [(''property'', ''og:title''), (''content'', ''OG Title'')] '''' []],
            example_body]],
      doc_title = lit ''Doc Title'',
      html_document = True,
      quirks_mode = False\<rparr>"

definition example_world :: world where
  \<comment> \<open>the example document at \<open>https://example.com/post\<close>, nothing selected\<close>
  "example_world =
     \<lparr>doc = example_document,
      selection = [],
      location_href = lit ''https://example.com/post'',
      location_hostname = lit ''example.com'',
      location_origin = lit ''https://example.com'',
      sent = [],
      console = []\<rparr>"

definition plain_body :: node where
  \<comment> \<open>\<open><body><p>hello</p></body>\<close>, rendered as \<open>hello\<close>\<close>
  "plain_body = elem ''body'' [] ''hello'' [elem ''p'' [] ''hello'' [Text (lit ''hello'')]]"

definition plain_world :: world where
  \<comment> \<open>a page with no semantic container: \<open><html><head></head>\<close> and the body above\<close>
  "plain_world =
     example_world
       \<lparr>doc := \<lparr>childNodes = [elem ''html'' [] ''hello'' [elem ''head'' [] '''' [], plain_body]],
                 doc_title = lit ''Doc Title'',
                 html_document = True,
                 quirks_mode = False\<rparr>\<rparr>"

definition selection_world :: world where
  \<comment> \<open>the same page with \<open>Hello world\<close> selected, blanks around it\<close>
  "selection_world = example_world\<lparr>selection := lit '' Hello world  ''\<rparr>"

definition long_selection_world :: world where
  \<comment> \<open>the same page with a blank and 301 letters \<open>a\<close> selected\<close>
  "long_selection_world = example_world\<lparr>selection := 0x20 # replicate 301 0x61\<rparr>"

definition svg_world :: world where
  \<comment> \<open>an SVG document: no \<open>html\<close> element, so \<open>document.body\<close> is \<open>null\<close>\<close>
  "svg_world =
     example_world
       \<lparr>doc := \<lparr>childNodes =
                   [Element \<lparr>localName = lit ''svg'', html_namespace = False,
                             attributes = [], innerText = None, href = None\<rparr> []],
                 doc_title = [],
                 html_document = False,
                 quirks_mode = False\<rparr>\<rparr>"

definition no_article :: libraries where
  \<comment> \<open>Readability finds no article\<close>
  "no_article = \<lparr>parse = (\<lambda>d. Inr None), turndown = (\<lambda>h. Inr h)\<rparr>"

definition an_article :: libraries where
  \<comment> \<open>Readability finds an article with a title and neither excerpt, byline nor site
      name; Turndown turns its markup into \<open>hello\<close>\<close>
  "an_article =
     \<lparr>parse = (\<lambda>d. Inr (Some \<lparr>p_title = Some (lit ''Extractor Title''),
                               p_content = Some (lit ''<p>hello</p>''),
                               p_textContent = Some (lit ''hello''),
                               p_excerpt = None,
                               p_byline = None,
                               p_siteName = None\<rparr>)),
      turndown = (\<lambda>h. Inr (lit ''hello''))\<rparr>"

definition example_article :: article where
  "example_article =
     \<lparr>art_title = Some (lit ''Extractor Title''),
      art_content = lit ''hello'',
      art_excerpt = [],
      art_byline = [],
      art_length = 5,
      art_siteName = []\<rparr>"

definition selection_record :: ContentRecord where
  "selection_record =
     \<lparr>url = lit ''https://example.com/post'',
      domain = lit ''example.com'',
      title = lit ''OG Title'',
      content = lit ''Hello world'',
      excerpt = lit ''Hello world'',
      selectedText = lit ''Hello world'',
      hasSelection = True,
      description = [],
      author = [],
      publishedDate = [],
      keywords' = [],
      ogImage = [],
      favicon = lit ''https://example.com/favicon.ico'',
      contentLength = 11,
      siteName = []\<rparr>"

definition long_selection_record :: ContentRecord where
  "long_selection_record =
     \<lparr>url = lit ''https://example.com/post'',
      domain = lit ''example.com'',
      title = lit ''OG Title'',
      content = replicate 301 0x61,
      excerpt = replicate 300 0x61,
      selectedText = replicate 301 0x61,
      hasSelection = True,
      description = [],
      author = [],
      publishedDate = [],
      keywords' = [],
      ogImage = [],
      favicon = lit ''https://example.com/favicon.ico'',
      contentLength = 301,
      siteName = []\<rparr>"

definition structured_record :: ContentRecord where
  "structured_record =
     \<lparr>url = lit ''https://example.com/post'',
      domain = lit ''example.com'',
      title = lit ''Extractor Title'',
      content = lit ''hello'',
      excerpt = lit ''hello'',
      selectedText = [],
      hasSelection = False,
      description = [],
      author = [],
      publishedDate = [],
      keywords' = [],
      ogImage = [],
      favicon = lit ''https://example.com/favicon.ico'',
      contentLength = 5,
      siteName = []\<rparr>"

definition plain_record :: ContentRecord where
  "plain_record =
     \<lparr>url = lit ''https://example.com/post'',
      domain = lit ''example.com'',
      title = lit ''Doc Title'',
      content = lit ''hello'',
      excerpt = lit ''hello'',
      selectedText = [],
      hasSelection = False,
      description = [],
      author = [],
      publishedDate = [],
      keywords' = [],
      ogImage = [],
      favicon = lit ''https://example.com/favicon.ico'',
      contentLength = 5,
      siteName = lit ''example.com''\<rparr>"

definition fallback_record :: ContentRecord where
  "fallback_record =
     \<lparr>url = lit ''https://example.com/post'',
      domain = lit ''example.com'',
      title = lit ''OG Title'',
      content = [],
      excerpt = [],
      selectedText = [],
      hasSelection = False,
      description = [],
      author = [],
      publishedDate = [],
      keywords' = [],
      ogImage = [],
      favicon = lit ''https://example.com/favicon.ico'',
      contentLength = 0,
      siteName = lit ''example.com''\<rparr>"

section \<open>Trimming\<close>

lemma dropWhile_rev_dropWhile:
  "dropWhile P (rev (dropWhile P (rev (dropWhile P s)))) = rev (dropWhile P (rev (dropWhile P s)))"
proof -
  define t where "t = dropWhile P s"
  define u where "u = dropWhile P (rev t)"
  have t: "t = rev u @ rev (takeWhile P (rev t))"
    unfolding u_def by (metis rev_append rev_rev_ident takeWhile_dropWhile_id)
  show ?thesis
  proof (cases "u = []")
    case True
    then show ?thesis unfolding t_def[symmetric] u_def[symmetric] by simp
  next
    case False
    then have ne: "rev u \<noteq> []" by simp
    then have "hd (rev u) = hd t" using t by (metis hd_append2)
    moreover have "t \<noteq> []" using t False by auto
    then have "\<not> P (hd t)" unfolding t_def by (rule hd_dropWhile)
    ultimately have "\<not> P (hd (rev u))" by simp
    then have "dropWhile P (rev u) = rev u" using ne
      by (cases "rev u") auto
    then show ?thesis unfolding t_def[symmetric] u_def[symmetric] .
  qed
qed

lemma trim_trim: "trim (trim s) = trim s"
  unfolding trim_def by (simp add: dropWhile_rev_dropWhile)

section \<open>What an extraction reads and what it changes\<close>

lemma extractMainContent_world:
  "snd (extractMainContent L w) = w \<or>
   (\<exists>e. snd (extractMainContent L w) = log_error (lit ''Readability extraction error:'') e w)"
  by (auto simp: extractMainContent_def Let_def split: sum.splits option.splits)

lemma extractMainContent_frame: "\<exists>c. snd (extractMainContent L w) = w\<lparr>console := c\<rparr>"
proof -
  have "w = w\<lparr>console := console w\<rparr>" by simp
  then show ?thesis
    using extractMainContent_world [of L w] unfolding log_error_def by metis
qed

lemma extractMainContent_length:
  "fst (extractMainContent L w) = Some a \<Longrightarrow> art_length a = length (art_content a)"
  by (auto simp: extractMainContent_def Let_def num_or_def split: sum.splits option.splits)

lemma getMetaContent_frame [simp]:
  "getMetaContent (w\<lparr>console := c\<rparr>) = getMetaContent w"
  "getMetaContent (w\<lparr>sent := m\<rparr>) = getMetaContent w"
  by (simp_all add: getMetaContent_def fun_eq_iff)

lemma initial_result_frame [simp]:
  "initial_result s h a (w\<lparr>console := c\<rparr>) = initial_result s h a w"
  "initial_result s h a (w\<lparr>sent := m\<rparr>) = initial_result s h a w"
  by (simp_all add: initial_result_def getPageTitle_def getMetaDescription_def getMetaAuthor_def
      getMetaDate_def getMetaKeywords_def getMetaImage_def getFaviconUrl_def
      split: option.splits)

lemma extractFallbackContent_frame [simp]:
  "extractFallbackContent (w\<lparr>console := c\<rparr>) = extractFallbackContent w"
  "extractFallbackContent (w\<lparr>sent := m\<rparr>) = extractFallbackContent w"
  by (simp_all add: extractFallbackContent_def split: option.splits)

lemma extractMainContent_fst_frame [simp]:
  "fst (extractMainContent L (w\<lparr>console := c\<rparr>)) = fst (extractMainContent L w)"
  "fst (extractMainContent L (w\<lparr>sent := m\<rparr>)) = fst (extractMainContent L w)"
  by (simp_all add: extractMainContent_def Let_def split: sum.splits option.splits)

lemma source_of_frame [simp]:
  "source_of L (w\<lparr>console := c\<rparr>) = source_of L w"
  "source_of L (w\<lparr>sent := m\<rparr>) = source_of L w"
  by (simp_all add: source_of_def getSelectedText_def)

section \<open>The three branches\<close>

lemma content_step_selection:
  assumes "trim (selection w) \<noteq> []"
  shows "fst (content_step L w) =
           Inr (use_selection (trim (selection w))
                  (initial_result (trim (selection w)) True (fst (extractMainContent L w)) w))"
proof -
  obtain c where c: "snd (extractMainContent L w) = w\<lparr>console := c\<rparr>"
    using extractMainContent_frame by blast
  show ?thesis
    using assms c
    by (simp add: content_step_def getSelectedText_def Let_def split_beta determine_content_def)
qed

lemma content_step_structured:
  assumes "trim (selection w) = []" "fst (extractMainContent L w) = Some a" "art_content a \<noteq> []"
  shows "fst (content_step L w) = Inr (use_article a (initial_result [] False (Some a) w))"
proof -
  obtain c where c: "snd (extractMainContent L w) = w\<lparr>console := c\<rparr>"
    using extractMainContent_frame by blast
  show ?thesis
    using assms c
    by (simp add: content_step_def getSelectedText_def Let_def split_beta determine_content_def)
qed

lemma content_step_fallback:
  assumes "source_of L w = FALLBACK"
  shows "fst (content_step L w) =
           (case extractFallbackContent w of
              Inl e \<Rightarrow> Inl e
            | Inr c \<Rightarrow>
                Inr (fallback_result c (initial_result [] False (fst (extractMainContent L w)) w)))"
proof -
  obtain c where c: "snd (extractMainContent L w) = w\<lparr>console := c\<rparr>"
    using extractMainContent_frame by blast
  show ?thesis
    using assms c
    by (auto simp: content_step_def getSelectedText_def Let_def split_beta determine_content_def
        use_fallback_def source_of_def sendMessage_def
        split: option.splits if_splits sum.splits)
qed

lemma content_step_world:
  "snd (content_step L w) =
     (if source_of L w = FALLBACK
      then sendMessage notice (snd (extractMainContent L w))
      else snd (extractMainContent L w))"
  by (auto simp: content_step_def getSelectedText_def Let_def split_beta determine_content_def
      use_fallback_def source_of_def split: option.splits if_splits sum.splits)

lemma extractPageData_fst:
  "fst (extractPageData L w) =
     (case fst (content_step L w) of Inl e \<Rightarrow> Inl e | Inr r \<Rightarrow> Inr (use_description r))"
  by (simp add: extractPageData_def split: prod.splits sum.splits)

lemma extractPageData_snd: "snd (extractPageData L w) = snd (content_step L w)"
  by (simp add: extractPageData_def split: prod.splits sum.splits)

lemma content_step_cases:
  assumes "fst (content_step L w) = Inr r"
  obtains
    (selection) "source_of L w = SELECTION" "trim (selection w) \<noteq> []"
      "r = use_selection (trim (selection w))
             (initial_result (trim (selection w)) True (fst (extractMainContent L w)) w)"
  | (structured) a where "source_of L w = STRUCTURED" "trim (selection w) = []"
      "fst (extractMainContent L w) = Some a" "art_content a \<noteq> []"
      "r = use_article a (initial_result [] False (Some a) w)"
  | (fallback) c where "source_of L w = FALLBACK" "trim (selection w) = []"
      "extractFallbackContent w = Inr c"
      "r = fallback_result c (initial_result [] False (fst (extractMainContent L w)) w)"
proof (cases "source_of L w")
  case SELECTION
  then have t: "trim (selection w) \<noteq> []"
    by (auto simp: source_of_def getSelectedText_def split: if_splits option.splits)
  with assms SELECTION show ?thesis
    using content_step_selection [OF t, of L] by (intro selection) auto
next
  case STRUCTURED
  then obtain a where a: "trim (selection w) = []" "fst (extractMainContent L w) = Some a"
      "art_content a \<noteq> []"
    by (auto simp: source_of_def getSelectedText_def split: if_splits option.splits)
  with assms STRUCTURED show ?thesis
    using content_step_structured [OF a, of ] by (intro structured) auto
next
  case FALLBACK
  then have t: "trim (selection w) = []"
    by (auto simp: source_of_def getSelectedText_def split: if_splits option.splits)
  from FALLBACK assms obtain c where "extractFallbackContent w = Inr c"
      "r = fallback_result c (initial_result [] False (fst (extractMainContent L w)) w)"
    by (auto simp: content_step_fallback split: sum.splits)
  with FALLBACK t show ?thesis by (intro fallback) auto
qed

lemma extractPageData_content_step:
  assumes "fst (extractPageData L w) = Inr r"
  obtains r0 where "fst (content_step L w) = Inr r0" "r = use_description r0"
  using assms by (auto simp: extractPageData_fst split: sum.splits)

lemma use_description_fields [simp]:
  "content (use_description r) = content r"
  "contentLength (use_description r) = contentLength r"
  "title (use_description r) = title r"
  "author (use_description r) = author r"
  "siteName (use_description r) = siteName r"
  "selectedText (use_description r) = selectedText r"
  "hasSelection (use_description r) = hasSelection r"
  "description (use_description r) = description r"
  by (simp_all add: use_description_def)

lemma fallback_loop_first_container:
  "fallback_loop d ss = map_option text_of (first_container d ss)"
  by (induction ss) (auto split: option.splits)

lemma getPageTitle_metadata_title: "getPageTitle w = metadata_title w"
  by (auto simp: getPageTitle_def metadata_title_def first_nonempty_def js_or_def or_str_def
      truthy_def split: option.splits)

section \<open>The example pages, evaluated\<close>

lemma selection_example:
  "fst (extractPageData an_article selection_world) = Inr selection_record"
  by code_simp

lemma structured_example:
  "fst (extractPageData an_article example_world) = Inr structured_record"
  by code_simp

lemma fallback_example:
  "fst (extractPageData no_article example_world) = Inr fallback_record"
  by code_simp

lemma structured_example_source: "source_of an_article example_world = STRUCTURED"
  by code_simp

lemma fallback_example_source: "source_of no_article example_world = FALLBACK"
  by code_simp

lemma structured_example_article:
  "fst (extractMainContent an_article example_world) = Some example_article"
  by code_simp

lemma fallback_example_article: "fst (extractMainContent no_article example_world) = None"
  by code_simp

lemma content_step_fst_frame [simp]:
  "fst (content_step L (w\<lparr>console := c\<rparr>)) = fst (content_step L w)"
  "fst (content_step L (w\<lparr>sent := m\<rparr>)) = fst (content_step L w)"
proof -
  have same: "fst (content_step L w') = fst (content_step L w)"
    if w': "selection w' = selection w" "source_of L w' = source_of L w"
      "fst (extractMainContent L w') = fst (extractMainContent L w)"
      "\<And>s h a. initial_result s h a w' = initial_result s h a w"
      "extractFallbackContent w' = extractFallbackContent w" for w'
  proof (cases "source_of L w")
    case SELECTION
    then have t: "trim (selection w) \<noteq> []"
      by (auto simp: source_of_def getSelectedText_def split: if_splits option.splits)
    then have t': "trim (selection w') \<noteq> []" using w' by simp
    show ?thesis
      using content_step_selection [OF t, of L] content_step_selection [OF t', of L] w' by simp
  next
    case STRUCTURED
    then obtain a where a: "trim (selection w) = []" "fst (extractMainContent L w) = Some a"
        "art_content a \<noteq> []"
      by (auto simp: source_of_def getSelectedText_def split: if_splits option.splits)
    then have a': "trim (selection w') = []" "fst (extractMainContent L w') = Some a"
      using w' by simp_all
    show ?thesis
      using content_step_structured [OF a] content_step_structured [OF a' a(3)] w' by simp
  next
    case FALLBACK
    then have "source_of L w' = FALLBACK" using w' by simp
    then show ?thesis
      using content_step_fallback [OF FALLBACK] content_step_fallback [of L w'] w'
      by (simp split: sum.splits)
  qed
  show "fst (content_step L (w\<lparr>console := c\<rparr>)) = fst (content_step L w)"
    by (rule same) simp_all
  show "fst (content_step L (w\<lparr>sent := m\<rparr>)) = fst (content_step L w)"
    by (rule same) simp_all
qed

section \<open>Selection\<close>

text \<open>
  C1. When the current selection is non-empty after trimming, \<open>extractPageData\<close> returns a
  record with \<open>hasSelection\<close> true whose \<open>content\<close> and \<open>selectedText\<close> are both the
  trimmed selection, whatever the structured extractor finds. In every returned record
  \<open>hasSelection\<close> is true exactly when \<open>selectedText\<close> is non-empty after trimming.
\<close>

theorem selection_wins:
  "(trim (selection w) \<noteq> [] \<longrightarrow>
      (\<exists>r. fst (extractPageData L w) = Inr r \<and> hasSelection r \<and>
           content r = trim (selection w) \<and> selectedText r = trim (selection w))) \<and>
   (\<forall>r. fst (extractPageData L w) = Inr r \<longrightarrow> hasSelection r = (trim (selectedText r) \<noteq> []))"
proof (intro conjI impI allI)
  assume t: "trim (selection w) \<noteq> []"
  show "\<exists>r. fst (extractPageData L w) = Inr r \<and> hasSelection r \<and>
           content r = trim (selection w) \<and> selectedText r = trim (selection w)"
    by (simp add: extractPageData_fst content_step_selection [OF t] use_selection_def
        initial_result_def)
next
  fix r
  assume "fst (extractPageData L w) = Inr r"
  then obtain r0 where r0: "fst (content_step L w) = Inr r0" and r: "r = use_description r0"
    by (rule extractPageData_content_step)
  from r0 show "hasSelection r = (trim (selectedText r) \<noteq> [])"
  proof (cases rule: content_step_cases)
    case selection
    then show ?thesis
      by (simp add: r use_selection_def initial_result_def trim_trim)
  next
    case (structured a)
    then show ?thesis
      by (simp add: r use_article_def Let_def initial_result_def trim_def split: option.splits)
  next
    case (fallback c)
    then show ?thesis
      by (simp add: r fallback_result_def initial_result_def trim_def)
  qed
qed

theorem selection_wins_witness:
  "trim (selection selection_world) \<noteq> [] \<and>
   fst (extractPageData an_article selection_world) = Inr selection_record \<and>
   hasSelection selection_record \<and>
   content selection_record = trim (selection selection_world) \<and>
   selectedText selection_record = trim (selection selection_world) \<and>
   trim (selectedText selection_record) \<noteq> []"
proof -
  have t: "trim (selection selection_world) \<noteq> []"
    by code_simp
  note e = selection_example
  show ?thesis
    using t e selection_wins [where w = selection_world and L = an_article] by auto
qed

section \<open>Content length\<close>

text \<open>
  C2. In every record that \<open>extractPageData\<close> returns, on each of the three branches,
  \<open>contentLength\<close> is the length of \<open>content\<close>; on the structured branch it is computed as
  \<open>article.length || article.content.length\<close>, which is that length too.
\<close>

theorem contentLength_exact:
  assumes "fst (extractPageData L w) = Inr r"
  shows "contentLength r = length (content r)"
proof -
  from assms obtain r0 where r0: "fst (content_step L w) = Inr r0" and r: "r = use_description r0"
    by (rule extractPageData_content_step)
  from r0 show ?thesis
  proof (cases rule: content_step_cases)
    case selection
    then show ?thesis by (simp add: r use_selection_def)
  next
    case (structured a)
    then show ?thesis
      by (simp add: r use_article_def Let_def num_or_def extractMainContent_length
          split: option.splits)
  next
    case (fallback c)
    then show ?thesis by (simp add: r fallback_result_def)
  qed
qed

theorem contentLength_exact_witness:
  "fst (extractPageData an_article example_world) = Inr structured_record \<and>
   contentLength structured_record = length (content structured_record)"
proof -
  note e = structured_example
  show ?thesis
    using e contentLength_exact [OF e] by simp
qed

section \<open>Fallback\<close>

text \<open>
  C3, as the specification states it: when the structured extractor returns \<open>null\<close>, the
  content is empty only if the document body has no visible text. The example page has an
  empty \<open>article\<close> element beside a paragraph: the body renders as \<open>hello\<close>, the extractor
  returns \<open>null\<close>, and the content is empty.
\<close>

theorem fallback_body_text_counterexample:
  "fst (extractMainContent no_article example_world) = None \<and>
   fst (extractPageData no_article example_world) = Inr fallback_record \<and>
   content fallback_record = [] \<and>
   body (doc example_world) = Some example_body \<and>
   getInnerText example_body = Some (lit ''hello'') \<and>
   lit ''hello'' \<noteq> []"
proof -
  have "content fallback_record = []"
    by code_simp
  moreover have "body (doc example_world) = Some example_body"
    by code_simp
  moreover have "getInnerText example_body = Some (lit ''hello'')"
    by code_simp
  moreover have "lit ''hello'' \<noteq> []"
    by code_simp
  ultimately show ?thesis
    using fallback_example_article fallback_example by simp
qed

text \<open>
  C3, amended: when the structured extractor returns \<open>null\<close> and nothing is selected, the
  returned content is exactly the text (\<open>innerText\<close>, else \<open>textContent\<close>, else the empty
  string) of the element the fallback extractor reads, which is the first semantic container
  found by the selector list and the body only when there is none. So, when the structured
  extractor returns \<open>null\<close>, the content is empty only if that element has no text, and it
  is empty whenever the first container is, whatever the body shows.
\<close>

theorem fallback_content_is_element_text:
  assumes "fst (extractMainContent L w) = None"
    and "fst (extractPageData L w) = Inr r"
  shows "(trim (selection w) = [] \<longrightarrow>
            (\<exists>element. fallback_element (doc w) = Some element \<and>
                       content r = text_of element)) \<and>
         (content r = [] \<longrightarrow>
            (\<exists>element. fallback_element (doc w) = Some element \<and> text_of element = []))"
proof -
  from assms(2) obtain r0 where r0: "fst (content_step L w) = Inr r0" and r: "r = use_description r0"
    by (rule extractPageData_content_step)
  from r0 show ?thesis
  proof (cases rule: content_step_cases)
    case selection
    then show ?thesis by (simp add: r use_selection_def)
  next
    case (structured a)
    with assms(1) show ?thesis by simp
  next
    case (fallback c)
    then have c: "content r = c" by (simp add: r fallback_result_def)
    have "\<exists>element. fallback_element (doc w) = Some element \<and> c = text_of element"
    proof (cases "first_container (doc w) selectors")
      case None
      with fallback(3) show ?thesis
        by (auto simp: extractFallbackContent_def fallback_loop_first_container
            fallback_element_def split: option.splits)
    next
      case (Some element)
      with fallback(3) show ?thesis
        by (auto simp: extractFallbackContent_def fallback_loop_first_container
            fallback_element_def)
    qed
    with c show ?thesis by auto
  qed
qed

theorem fallback_content_is_element_text_witness:
  "fst (extractMainContent no_article example_world) = None \<and>
   fst (extractPageData no_article example_world) = Inr fallback_record \<and>
   trim (selection example_world) = [] \<and>
   fallback_element (doc example_world) = Some example_article_element \<and>
   content fallback_record = text_of example_article_element \<and>
   content fallback_record = [] \<and>
   fst (extractMainContent no_article plain_world) = None \<and>
   fst (extractPageData no_article plain_world) = Inr plain_record \<and>
   trim (selection plain_world) = [] \<and>
   fallback_element (doc plain_world) = Some plain_body \<and>
   content plain_record = text_of plain_body \<and>
   content plain_record = lit ''hello''"
proof -
  note a = fallback_example_article
  note e = fallback_example
  have t: "trim (selection example_world) = []"
    by code_simp
  have f: "fallback_element (doc example_world) = Some example_article_element"
    by code_simp
  have c: "content fallback_record = []"
    by code_simp
  have a': "fst (extractMainContent no_article plain_world) = None"
    by code_simp
  have e': "fst (extractPageData no_article plain_world) = Inr plain_record"
    by code_simp
  have t': "trim (selection plain_world) = []"
    by code_simp
  have f': "fallback_element (doc plain_world) = Some plain_body"
    by code_simp
  have c': "content plain_record = lit ''hello''"
    by code_simp
  have "content fallback_record = text_of example_article_element"
    using fallback_content_is_element_text [OF a e] t f by auto
  moreover have "content plain_record = text_of plain_body"
    using fallback_content_is_element_text [OF a' e'] t' f' by auto
  ultimately show ?thesis
    using a e t f c a' e' t' f' c' by simp
qed

section \<open>Title\<close>

text \<open>
  C4. The title of a returned record is the extractor's title when the structured branch
  is taken and that title is non-empty; otherwise, so on the selection and fallback
  branches and on the structured branch with an empty extractor title, it is the metadata
  title: \<open>og:title\<close>, else \<open>twitter:title\<close>, else the document title, else the empty string.
\<close>

theorem title_precedence:
  assumes "fst (extractPageData L w) = Inr r"
  shows "title r =
           (if source_of L w = STRUCTURED \<and> extractor_title L w \<noteq> []
            then extractor_title L w
            else metadata_title w)"
proof -
  from assms obtain r0 where r0: "fst (content_step L w) = Inr r0" and r: "r = use_description r0"
    by (rule extractPageData_content_step)
  from r0 show ?thesis
  proof (cases rule: content_step_cases)
    case selection
    then show ?thesis
      by (simp add: r use_selection_def initial_result_def getPageTitle_metadata_title)
  next
    case (structured a)
    then show ?thesis
      by (simp add: r use_article_def Let_def initial_result_def getPageTitle_metadata_title
          extractor_title_def or_str_def split: option.splits)
  next
    case (fallback c)
    then show ?thesis
      by (simp add: r fallback_result_def initial_result_def getPageTitle_metadata_title)
  qed
qed

theorem title_precedence_witness:
  "fst (extractPageData an_article example_world) = Inr structured_record \<and>
   source_of an_article example_world = STRUCTURED \<and>
   extractor_title an_article example_world = lit ''Extractor Title'' \<and>
   metadata_title example_world = lit ''OG Title'' \<and>
   title structured_record = lit ''Extractor Title'' \<and>
   fst (extractPageData no_article example_world) = Inr fallback_record \<and>
   source_of no_article example_world = FALLBACK \<and>
   title fallback_record = lit ''OG Title''"
proof -
  note e = structured_example
  note s = structured_example_source
  have x: "extractor_title an_article example_world = lit ''Extractor Title''"
    by code_simp
  have m: "metadata_title example_world = lit ''OG Title''"
    by code_simp
  have n: "lit ''Extractor Title'' \<noteq> []"
    by code_simp
  note e' = fallback_example
  note s' = fallback_example_source
  show ?thesis
    using e s x m n e' s' title_precedence [OF e] title_precedence [OF e'] by simp
qed

section \<open>Excerpt\<close>

text \<open>
  C5. Whenever the excerpt of a returned record comes from truncation, that is, the
  branch taken assigned \<open>substring(0, 300)\<close> and the description did not replace it, the
  excerpt is the first 300 code units of the content and is at most 300 long. This is
  always so on the selection branch, where the content is the selection.
\<close>

theorem excerpt_cap:
  assumes "fst (extractPageData L w) = Inr r"
    and "source_of L w = SELECTION \<or> (truncated L w \<and> \<not> description_used L w)"
  shows "excerpt r = substring0 300 (content r) \<and> length (excerpt r) \<le> 300"
proof -
  from assms(1) obtain r0 where r0: "fst (content_step L w) = Inr r0" and r: "r = use_description r0"
    by (rule extractPageData_content_step)
  from r0 show ?thesis
  proof (cases rule: content_step_cases)
    case selection
    then show ?thesis
      by (cases "trim (selection w)")
        (simp_all add: r use_selection_def use_description_def substring0_def)
  next
    case (structured a)
    with assms(2) r0 show ?thesis
      by (cases "art_content a")
        (simp_all add: r use_article_def Let_def use_description_def substring0_def
          truncated_def description_used_def or_str_def split: option.splits)
  next
    case (fallback c)
    with assms(2) r0 show ?thesis
      by (simp add: r fallback_result_def use_description_def substring0_def
          truncated_def description_used_def)
  qed
qed

theorem excerpt_cap_witness:
  "fst (extractPageData an_article long_selection_world) = Inr long_selection_record \<and>
   source_of an_article long_selection_world = SELECTION \<and>
   length (content long_selection_record) = 301 \<and>
   excerpt long_selection_record = substring0 300 (content long_selection_record) \<and>
   length (excerpt long_selection_record) \<le> 300 \<and>
   fst (extractPageData an_article example_world) = Inr structured_record \<and>
   truncated an_article example_world \<and>
   \<not> description_used an_article example_world \<and>
   excerpt structured_record = substring0 300 (content structured_record) \<and>
   length (excerpt structured_record) \<le> 300"
proof -
  have e: "fst (extractPageData an_article long_selection_world) = Inr long_selection_record"
    by code_simp
  have s: "source_of an_article long_selection_world = SELECTION"
    by code_simp
  have n: "length (content long_selection_record) = 301"
    by (simp add: long_selection_record_def)
  have t: "truncated an_article example_world"
    by code_simp
  have d: "\<not> description_used an_article example_world"
    by code_simp
  have long: "excerpt long_selection_record = substring0 300 (content long_selection_record) \<and>
      length (excerpt long_selection_record) \<le> 300"
    using excerpt_cap [OF e] s by blast
  have short: "excerpt structured_record = substring0 300 (content structured_record) \<and>
      length (excerpt structured_record) \<le> 300"
    using excerpt_cap [OF structured_example] t d by blast
  show ?thesis
    using e s n t d structured_example long short by blast
qed

text \<open>
  C10. A returned record whose content is non-empty has a non-empty excerpt, and for it
  the description step changed nothing: the record is the one the three-way choice
  produced. On the selection and structured branches the content, and so the excerpt, is
  never empty.
\<close>

theorem excerpt_nonempty:
  assumes "fst (extractPageData L w) = Inr r"
    and "content r \<noteq> [] \<or> source_of L w \<noteq> FALLBACK"
  shows "excerpt r \<noteq> [] \<and> content r \<noteq> [] \<and> fst (content_step L w) = Inr r"
proof -
  from assms(1) obtain r0 where r0: "fst (content_step L w) = Inr r0" and r: "r = use_description r0"
    by (rule extractPageData_content_step)
  from r0 have "excerpt r0 \<noteq> [] \<and> content r0 \<noteq> []"
  proof (cases rule: content_step_cases)
    case selection
    then show ?thesis
      by (cases "trim (selection w)") (simp_all add: use_selection_def substring0_def)
  next
    case (structured a)
    then show ?thesis
      by (cases "art_content a")
        (simp_all add: use_article_def Let_def substring0_def or_str_def split: option.splits)
  next
    case (fallback c)
    with assms(2) show ?thesis
      by (cases c) (simp_all add: r fallback_result_def substring0_def)
  qed
  then show ?thesis
    using r0 by (simp add: r use_description_def)
qed

theorem excerpt_nonempty_witness:
  "fst (extractPageData an_article example_world) = Inr structured_record \<and>
   content structured_record \<noteq> [] \<and>
   source_of an_article example_world \<noteq> FALLBACK \<and>
   excerpt structured_record \<noteq> [] \<and>
   fst (content_step an_article example_world) = Inr structured_record"
proof -
  have c: "content structured_record \<noteq> []"
    by code_simp
  show ?thesis
    using c structured_example structured_example_source
      excerpt_nonempty [OF structured_example disjI1, OF c]
    by simp
qed

section \<open>Author and site name\<close>

text \<open>
  C6, as the specification states it: when the structured extractor produces a result
  whose site name is empty, the record's site name is the page's host name. On the example
  page the extractor's result has an empty site name, and so has the record, while the
  host name is \<open>example.com\<close>.
\<close>

theorem siteName_hostname_counterexample:
  "fst (extractMainContent an_article example_world) = Some example_article \<and>
   art_siteName example_article = [] \<and>
   fst (extractPageData an_article example_world) = Inr structured_record \<and>
   siteName structured_record = [] \<and>
   location_hostname example_world = lit ''example.com'' \<and>
   siteName structured_record \<noteq> location_hostname example_world"
proof -
  have "art_siteName example_article = []"
    by code_simp
  moreover have "siteName structured_record = []"
    by code_simp
  moreover have "location_hostname example_world = lit ''example.com''"
    by code_simp
  moreover have "siteName structured_record \<noteq> location_hostname example_world"
    by code_simp
  ultimately show ?thesis
    using structured_example_article structured_example by simp
qed

text \<open>
  C6, amended: the author of a returned record is the metadata author when that is
  non-empty, else the extractor's byline (empty when the extractor has no result). The
  site name is the extractor's site name whenever the extractor has a result, also when
  that site name is empty, and the page's host name only when the extractor has none.
\<close>

theorem author_and_siteName:
  assumes "fst (extractPageData L w) = Inr r"
  shows "author r =
           (if getMetaAuthor w \<noteq> [] then getMetaAuthor w
            else case fst (extractMainContent L w) of
                   None \<Rightarrow> []
                 | Some a \<Rightarrow> art_byline a) \<and>
         siteName r =
           (case fst (extractMainContent L w) of
              None \<Rightarrow> location_hostname w
            | Some a \<Rightarrow> art_siteName a)"
proof -
  from assms obtain r0 where r0: "fst (content_step L w) = Inr r0" and r: "r = use_description r0"
    by (rule extractPageData_content_step)
  from r0 show ?thesis
  proof (cases rule: content_step_cases)
    case selection
    then show ?thesis
      by (simp add: r use_selection_def initial_result_def or_str_def)
  next
    case (structured a)
    then show ?thesis
      by (simp add: r use_article_def Let_def initial_result_def or_str_def split: option.splits)
  next
    case (fallback c)
    then show ?thesis
      by (simp add: r fallback_result_def initial_result_def or_str_def)
  qed
qed

theorem author_and_siteName_witness:
  "fst (extractPageData no_article example_world) = Inr fallback_record \<and>
   fst (extractMainContent no_article example_world) = None \<and>
   siteName fallback_record = location_hostname example_world \<and>
   fst (extractPageData an_article example_world) = Inr structured_record \<and>
   fst (extractMainContent an_article example_world) = Some example_article \<and>
   siteName structured_record = art_siteName example_article"
  using fallback_example fallback_example_article structured_example structured_example_article
    author_and_siteName [OF fallback_example] author_and_siteName [OF structured_example]
  by simp

section \<open>Notification\<close>

text \<open>
  C7. An extraction hands \<open>chrome.runtime.sendMessage\<close> exactly one message, the advisory
  notice, when it takes the fallback branch, and none when it takes the selection or the
  structured branch; this holds whether or not the fallback extractor then throws. The
  script drops what \<open>sendMessage\<close> returns, so nothing waits for the delivery: the
  extraction goes on in the same step with the world \<open>sendMessage\<close> left.
\<close>

theorem notification_once:
  "sent (snd (extractPageData L w)) =
     sent w @ (if source_of L w = FALLBACK then [notice] else [])"
proof -
  obtain c where c: "snd (extractMainContent L w) = w\<lparr>console := c\<rparr>"
    using extractMainContent_frame by blast
  show ?thesis
    by (simp add: extractPageData_snd content_step_world c sendMessage_def)
qed

theorem notification_once_witness:
  "source_of no_article example_world = FALLBACK \<and>
   sent (snd (extractPageData no_article example_world)) = [notice] \<and>
   source_of an_article example_world = STRUCTURED \<and>
   sent (snd (extractPageData an_article example_world)) = []"
proof -
  have "sent example_world = []"
    by code_simp
  then show ?thesis
    using fallback_example_source structured_example_source
      notification_once [of no_article example_world]
      notification_once [of an_article example_world]
    by simp
qed

section \<open>Message listener\<close>

text \<open>
  C8. For a request whose action is \<open>extractPageData\<close> the listener passes exactly one
  response to \<open>sendResponse\<close> and returns \<open>true\<close>: the success response carrying the record
  when \<open>extractPageData\<close> returns one, and the failure response carrying the message of the
  exception when \<open>extractPageData\<close> throws. No exception leaves the listener.
\<close>

theorem listener_responds:
  assumes "action req = lit ''extractPageData''"
  shows "fst (listener L req w) =
           ([case fst (extractPageData L w) of
               Inl e \<Rightarrow> Failure (message e)
             | Inr pageData \<Rightarrow> Success pageData], True)"
  using assms by (simp add: listener_def split: prod.splits sum.splits)

theorem listener_responds_witness:
  "action \<lparr>action = lit ''extractPageData''\<rparr> = lit ''extractPageData'' \<and>
   fst (extractPageData no_article svg_world) =
     Inl (TypeError (lit ''Cannot read properties of null (reading 'innerText')'')) \<and>
   fst (listener no_article \<lparr>action = lit ''extractPageData''\<rparr> svg_world) =
     ([Failure (lit ''Cannot read properties of null (reading 'innerText')'')], True) \<and>
   fst (listener an_article \<lparr>action = lit ''extractPageData''\<rparr> example_world) =
     ([Success structured_record], True)"
proof -
  have a: "action \<lparr>action = lit ''extractPageData''\<rparr> = lit ''extractPageData''"
    by simp
  have e: "fst (extractPageData no_article svg_world) =
      Inl (TypeError (lit ''Cannot read properties of null (reading 'innerText')''))"
    by code_simp
  show ?thesis
    using a e structured_example
      listener_responds [OF a, of no_article svg_world]
      listener_responds [OF a, of an_article example_world]
    by simp
qed

section \<open>Repeated extraction\<close>

lemma extractPageData_world:
  "\<exists>c m. snd (extractPageData L w) = w\<lparr>console := c, sent := m\<rparr>"
proof -
  obtain c where c: "snd (extractMainContent L w) = w\<lparr>console := c\<rparr>"
    using extractMainContent_frame by blast
  show ?thesis
  proof (cases "source_of L w = FALLBACK")
    case True
    then have "snd (extractPageData L w) = w\<lparr>console := c, sent := sent w @ [notice]\<rparr>"
      by (simp add: extractPageData_snd content_step_world c sendMessage_def)
    then show ?thesis by blast
  next
    case False
    then have "snd (extractPageData L w) = w\<lparr>console := c, sent := sent w\<rparr>"
      by (simp add: extractPageData_snd content_step_world c)
    then show ?thesis by blast
  qed
qed

lemma extractPageData_fst_frame:
  "fst (extractPageData L (w\<lparr>console := c, sent := m\<rparr>)) = fst (extractPageData L w)"
  by (simp add: extractPageData_fst)

text \<open>
  C9. An extraction leaves the document and the selection as they were, and a second
  extraction, run in the world the first one left, gives the same result in every field
  (or throws the same exception). The libraries are functions of the document they are
  given.
\<close>

theorem extraction_repeatable:
  "fst (extractPageData L (snd (extractPageData L w))) = fst (extractPageData L w) \<and>
   doc (snd (extractPageData L w)) = doc w \<and>
   selection (snd (extractPageData L w)) = selection w"
proof -
  obtain c m where "snd (extractPageData L w) = w\<lparr>console := c, sent := m\<rparr>"
    using extractPageData_world by blast
  then show ?thesis
    by (simp add: extractPageData_fst_frame)
qed

theorem extraction_repeatable_witness:
  "fst (extractPageData no_article (snd (extractPageData no_article example_world))) =
     Inr fallback_record \<and>
   sent (snd (extractPageData no_article example_world)) \<noteq> sent example_world"
proof -
  have "sent (snd (extractPageData no_article example_world)) \<noteq> sent example_world"
    by code_simp
  then show ?thesis
    using fallback_example extraction_repeatable [of no_article example_world] by simp
qed


end
